theory Spec2Isabelle
  imports Main
begin

section \<open>The interview agent component (src/components/Agent.tsx)\<close>

text \<open>
  The component holds four pieces of React state, reacts to six events of the voice
  session, to the single call/end button and to the settling of two promises
  (\<^verbatim>\<open>vapi.start\<close> and \<^verbatim>\<open>createFeedback\<close>). Every call that
  leaves the component (alert, console, router, voice session, feedback action) and every
  call of \<^verbatim>\<open>setCallStatus\<close> is appended to a log, in the order the source
  makes them.
\<close>

subsection \<open>Data\<close>

datatype CallStatus = INACTIVE | CONNECTING | ACTIVE | FINISHED

datatype Role = User | System | Assistant

record SavedMessage =
  role :: Role
  content :: string

datatype AgentType = generate | normal

record AgentProps =
  userName :: string
  userId :: string
  interviewId :: "string option"
  feedbackId :: "string option"
  type :: AgentType
  questions :: "string list option"

text \<open>
  The payload of a \<^verbatim>\<open>message\<close> event. The source reads four fields of an
  untyped object; \<open>msg_type\<close> and \<open>msg_transcriptType\<close> are compared with string
  literals only.
\<close>

record VapiMessage =
  msg_type :: string
  msg_transcriptType :: string
  msg_role :: Role
  msg_transcript :: string

text \<open>
  The \<^verbatim>\<open>interviewer\<close> constant of \<^verbatim>\<open>@/constants\<close> is not part of
  the sources at hand; it is a parameter of the model, an opaque token that is only tested
  for presence and handed to the voice session.
\<close>

datatype AssistantConfig = AssistantConfig string

record Env =
  workflowId :: "string option"
  interviewer :: "AssistantConfig option"

record FeedbackParams =
  fb_interviewId :: string
  fb_userId :: string
  fb_transcript :: "SavedMessage list"
  fb_feedbackId :: "string option"

datatype StartArgs =
    StartWorkflow string string string
  | StartAssistant AssistantConfig string

datatype Action =
    SetCallStatus CallStatus
  | Alert string
  | ConsoleLog string
  | ConsoleError string
  | RouterPush string
  | VapiStart StartArgs
  | VapiStop
  | CreateFeedback FeedbackParams

record AgentState =
  callStatus :: CallStatus
  messages :: "SavedMessage list"
  isSpeaking :: bool
  lastMessage :: string
  log :: "Action list"

text \<open>How the promise of \<^verbatim>\<open>vapi.start\<close> settles; a rejection carries the
  \<^verbatim>\<open>message\<close> property of the thrown value, when it has one.\<close>

datatype StartOutcome = Resolved | Rejected "string option"

text \<open>How the promise of \<^verbatim>\<open>createFeedback\<close> settles: with
  \<^verbatim>\<open>{ success, feedbackId }\<close>, or by rejection.\<close>

datatype FeedbackOutcome = Returned bool "string option" | Threw

datatype Event =
    CallStart
  | CallEnd
  | Message VapiMessage
  | SpeechStart
  | SpeechEnd
  | Error string
  | Click
  | StartSettled StartOutcome
  | FeedbackSettled FeedbackOutcome

subsection \<open>JavaScript helpers\<close>

text \<open>Truthiness of a string, and of a string that may be undefined.\<close>

definition truthy :: "string \<Rightarrow> bool" where
  "truthy s = (s \<noteq> [])"

definition truthy_opt :: "string option \<Rightarrow> bool" where
  "truthy_opt x = (case x of None \<Rightarrow> False | Some s \<Rightarrow> truthy s)"

text \<open>A value interpolated in a template literal.\<close>

definition interpolate :: "string option \<Rightarrow> string" where
  "interpolate x = (case x of None \<Rightarrow> ''undefined'' | Some s \<Rightarrow> s)"

text \<open>
  \<^verbatim>\<open>Array.prototype.join\<close>: the result starts empty; before every element
  but the first the separator is appended, then the element.
\<close>

fun join_loop :: "string \<Rightarrow> string list \<Rightarrow> nat \<Rightarrow> string \<Rightarrow> string" where
  "join_loop sep [] k r = r"
| "join_loop sep (x # xs) k r =
     join_loop sep xs (Suc k) ((if 0 < k then r @ sep else r) @ x)"

definition join :: "string list \<Rightarrow> string \<Rightarrow> string" where
  "join xs sep = join_loop sep xs 0 []"

subsection \<open>State setters and outside calls\<close>

definition setCallStatus :: "CallStatus \<Rightarrow> AgentState \<Rightarrow> AgentState" where
  "setCallStatus v s = s\<lparr>callStatus := v, log := log s @ [SetCallStatus v]\<rparr>"

definition emit :: "Action \<Rightarrow> AgentState \<Rightarrow> AgentState" where
  "emit a s = s\<lparr>log := log s @ [a]\<rparr>"

definition initial :: AgentState where
  "initial = \<lparr>callStatus = INACTIVE, messages = [], isSpeaking = False,
              lastMessage = [], log = []\<rparr>"

subsection \<open>The session's event listeners (first effect)\<close>

definition onCallStart :: "AgentState \<Rightarrow> AgentState" where
  "onCallStart s = setCallStatus ACTIVE s"

definition onCallEnd :: "AgentState \<Rightarrow> AgentState" where
  "onCallEnd s = setCallStatus FINISHED s"

definition onMessage :: "VapiMessage \<Rightarrow> AgentState \<Rightarrow> AgentState" where
  "onMessage message s =
     (if msg_type message = ''transcript'' \<and> msg_transcriptType message = ''final''
      then (let newMessage = \<lparr>role = msg_role message, content = msg_transcript message\<rparr>
            in s\<lparr>messages := messages s @ [newMessage]\<rparr>)
      else s)"

definition onSpeechStart :: "AgentState \<Rightarrow> AgentState" where
  "onSpeechStart s = s\<lparr>isSpeaking := True\<rparr>"

definition onSpeechEnd :: "AgentState \<Rightarrow> AgentState" where
  "onSpeechEnd s = s\<lparr>isSpeaking := False\<rparr>"

definition onError :: "string \<Rightarrow> AgentState \<Rightarrow> AgentState" where
  "onError error s = emit (ConsoleLog (''Error: '' @ error)) s"

subsection \<open>The completion effect (second effect)\<close>

text \<open>
  \<^verbatim>\<open>handleGenerateFeedback\<close> up to its \<^verbatim>\<open>await\<close>, and the part
  that runs once the promise of \<^verbatim>\<open>createFeedback\<close> has settled.
\<close>

definition handleGenerateFeedback ::
  "AgentProps \<Rightarrow> SavedMessage list \<Rightarrow> AgentState \<Rightarrow> AgentState" where
  "handleGenerateFeedback p msgs s =
     (if \<not> truthy_opt (interviewId p) \<or> \<not> truthy (userId p)
      then emit (RouterPush ''/'')
             (emit (ConsoleError ''Missing interviewId or userId for feedback generation.'') s)
      else emit (CreateFeedback
                   \<lparr>fb_interviewId = interpolate (interviewId p), fb_userId = userId p,
                    fb_transcript = msgs, fb_feedbackId = feedbackId p\<rparr>) s)"

definition handleGenerateFeedback_settled ::
  "AgentProps \<Rightarrow> FeedbackOutcome \<Rightarrow> AgentState \<Rightarrow> AgentState" where
  "handleGenerateFeedback_settled p r s =
     (case r of
        Threw \<Rightarrow> s
      | Returned success ident \<Rightarrow>
          if success \<and> truthy_opt ident
          then emit (RouterPush (''/interview/'' @ interpolate (interviewId p) @ ''/feedback'')) s
          else emit (RouterPush ''/'') s)"

definition completionEffect :: "AgentProps \<Rightarrow> AgentState \<Rightarrow> AgentState" where
  "completionEffect p s0 =
     (let s = (if 0 < length (messages s0)
               then s0\<lparr>lastMessage := content (messages s0 ! (length (messages s0) - 1))\<rparr>
               else s0)
      in if callStatus s = FINISHED
         then (if type p = generate then emit (RouterPush ''/'') s
               else handleGenerateFeedback p (messages s) s)
         else s)"

subsection \<open>The button handlers\<close>

definition formatQuestions :: "string list option \<Rightarrow> string" where
  "formatQuestions qs =
     (case qs of
        None \<Rightarrow> []
      | Some qlist \<Rightarrow> join (map (\<lambda>question. ''- '' @ question) qlist) [CHR 0x0A])"

text \<open>\<^verbatim>\<open>handleCall\<close> up to its \<^verbatim>\<open>await\<close>.\<close>

definition handleCall :: "AgentProps \<Rightarrow> Env \<Rightarrow> AgentState \<Rightarrow> AgentState" where
  "handleCall p env s0 =
     (let s = setCallStatus CONNECTING s0 in
      if type p = generate then
        (case workflowId env of
           None \<Rightarrow> setCallStatus INACTIVE
             (emit (Alert ''Vapi Workflow ID must be provided to start the call for 'generate' type.'') s)
         | Some workflowIdToUse \<Rightarrow>
             if \<not> truthy workflowIdToUse
             then setCallStatus INACTIVE
               (emit (Alert ''Vapi Workflow ID must be provided to start the call for 'generate' type.'') s)
             else emit (VapiStart (StartWorkflow workflowIdToUse (userName p) (userId p))) s)
      else
        (case interviewer env of
           None \<Rightarrow> setCallStatus INACTIVE
             (emit (Alert ''Assistant (interviewer) must be provided to start the call.'') s)
         | Some cfg \<Rightarrow>
             emit (VapiStart (StartAssistant cfg (formatQuestions (questions p)))) s))"

text \<open>The \<^verbatim>\<open>catch\<close> block of \<^verbatim>\<open>handleCall\<close>, the same in both modes.\<close>

definition startErrorText :: "string option \<Rightarrow> string" where
  "startErrorText m =
     ''Something went wrong: '' @
       (if truthy_opt m then interpolate m else ''Failed to start interview.'')"

definition handleCall_catch :: "string option \<Rightarrow> AgentState \<Rightarrow> AgentState" where
  "handleCall_catch m s = setCallStatus INACTIVE (emit (Alert (startErrorText m)) s)"

definition handleCall_settled :: "StartOutcome \<Rightarrow> AgentState \<Rightarrow> AgentState" where
  "handleCall_settled r s = (case r of Resolved \<Rightarrow> s | Rejected m \<Rightarrow> handleCall_catch m s)"

definition handleDisconnect :: "AgentState \<Rightarrow> AgentState" where
  "handleDisconnect s = emit VapiStop (setCallStatus FINISHED s)"

subsection \<open>One event, and a sequence of events\<close>

text \<open>
  The rendered button calls \<^verbatim>\<open>handleCall\<close> unless the status is
  \<^verbatim>\<open>ACTIVE\<close>, when it calls \<^verbatim>\<open>handleDisconnect\<close>.
\<close>

fun handler :: "AgentProps \<Rightarrow> Env \<Rightarrow> Event \<Rightarrow> AgentState \<Rightarrow> AgentState" where
  "handler p env CallStart s = onCallStart s"
| "handler p env CallEnd s = onCallEnd s"
| "handler p env (Message m) s = onMessage m s"
| "handler p env SpeechStart s = onSpeechStart s"
| "handler p env SpeechEnd s = onSpeechEnd s"
| "handler p env (Error e) s = onError e s"
| "handler p env Click s =
     (if callStatus s \<noteq> ACTIVE then handleCall p env s else handleDisconnect s)"
| "handler p env (StartSettled r) s = handleCall_settled r s"
| "handler p env (FeedbackSettled r) s = handleGenerateFeedback_settled p r s"

text \<open>
  The state updates of one handler take effect together, at the next render. After a
  handler has run the component renders again, and the completion effect runs when one
  of its dependencies differs from the previous render. The properties and the router do
  not change while the component is mounted, so the dependencies that can differ are
  \<open>messages\<close> (a new array at every append) and \<open>callStatus\<close>. The update
  of \<open>lastMessage\<close> by the effect causes one more render, at which no dependency
  differs.

  \<open>step\<close> is the case of an event that is rendered on its own: the handler runs, the
  component renders, the effect runs if a dependency differs, and the state returned is
  the one the following render shows. \<open>run\<close> handles a sequence of events in this
  way. Events that are handled before the component renders again share one render and
  one run of the effect; the render schedules below cover them.

  The two promises settle as events of their own, so that other events can come between
  a call and its continuation. The model accepts every sequence of events, also one that
  settles a promise no call has made: what holds of every sequence holds of those the
  browser and the session can produce.
\<close>

definition depsChanged :: "AgentState \<Rightarrow> AgentState \<Rightarrow> bool" where
  "depsChanged old new = (messages new \<noteq> messages old \<or> callStatus new \<noteq> callStatus old)"

definition step :: "AgentProps \<Rightarrow> Env \<Rightarrow> Event \<Rightarrow> AgentState \<Rightarrow> AgentState" where
  "step p env e s =
     (let s' = handler p env e s
      in if depsChanged s s' then completionEffect p s' else s')"

fun run :: "AgentProps \<Rightarrow> Env \<Rightarrow> Event list \<Rightarrow> AgentState \<Rightarrow> AgentState" where
  "run p env [] s = s"
| "run p env (e # es) s = run p env es (step p env e s)"

text \<open>Mounting runs the completion effect once on the initial state.\<close>

definition mount :: "AgentProps \<Rightarrow> AgentState" where
  "mount p = completionEffect p initial"

subsection \<open>Render schedules\<close>

text \<open>
  Between two renders any number of events can be handled. A component is the state the
  last committed render shows (\<open>shown\<close>: what is displayed, and the values the
  dependencies of the effect are compared with) together with the state that holds every
  update made since (\<open>current\<close>, with the log). Handling an event updates
  \<open>current\<close>; the button that is pressed is the one of the last render. A render
  commits \<open>current\<close> and runs the completion effect when a dependency differs from
  the previous render; the effect's own update of \<open>lastMessage\<close> is shown by the
  render after.
\<close>

record Component =
  shown :: AgentState
  current :: AgentState

text \<open>One step of a schedule: an event is handled, or the component renders.\<close>

datatype Tick = Handle Event | Render

fun handleAt :: "AgentProps \<Rightarrow> Env \<Rightarrow> CallStatus \<Rightarrow> Event \<Rightarrow> AgentState \<Rightarrow> AgentState" where
  "handleAt p env rendered Click s =
     (if rendered \<noteq> ACTIVE then handleCall p env s else handleDisconnect s)"
| "handleAt p env rendered e s = handler p env e s"

fun tick :: "AgentProps \<Rightarrow> Env \<Rightarrow> Tick \<Rightarrow> Component \<Rightarrow> Component" where
  "tick p env (Handle e) c =
     c\<lparr>current := handleAt p env (callStatus (shown c)) e (current c)\<rparr>"
| "tick p env Render c =
     \<lparr>shown = current c,
      current = (if depsChanged (shown c) (current c)
                 then completionEffect p (current c) else current c)\<rparr>"

fun schedule :: "AgentProps \<Rightarrow> Env \<Rightarrow> Tick list \<Rightarrow> Component \<Rightarrow> Component" where
  "schedule p env [] c = c"
| "schedule p env (t # ts) c = schedule p env ts (tick p env t c)"

text \<open>Mounting: the first render shows the initial state, then the effect runs.\<close>

definition mounted :: "AgentProps \<Rightarrow> Component" where
  "mounted p = \<lparr>shown = initial, current = completionEffect p initial\<rparr>"

subsection \<open>Observations on the log\<close>

fun isCreateFeedback :: "Action \<Rightarrow> bool" where
  "isCreateFeedback (CreateFeedback r) = True"
| "isCreateFeedback a = False"

fun isRouterPush :: "Action \<Rightarrow> bool" where
  "isRouterPush (RouterPush r) = True"
| "isRouterPush a = False"

fun isVapiStart :: "Action \<Rightarrow> bool" where
  "isVapiStart (VapiStart r) = True"
| "isVapiStart a = False"

fun isAlert :: "Action \<Rightarrow> bool" where
  "isAlert (Alert r) = True"
| "isAlert a = False"

definition isFinalTranscript :: "VapiMessage \<Rightarrow> bool" where
  "isFinalTranscript m = (msg_type m = ''transcript'' \<and> msg_transcriptType m = ''final'')"

text \<open>The actions a computation has added to the log of the state it started from.\<close>

definition added :: "AgentState \<Rightarrow> AgentState \<Rightarrow> Action list" where
  "added s s' = drop (length (log s)) (log s')"

subsection \<open>Notions of the specification\<close>

fun isFinalEvent :: "Event \<Rightarrow> bool" where
  "isFinalEvent (Message m) = isFinalTranscript m"
| "isFinalEvent e = False"

text \<open>The transcript entries a sequence of events carries, in arrival order.\<close>

fun finalFragments :: "Event list \<Rightarrow> SavedMessage list" where
  "finalFragments [] = []"
| "finalFragments (Message m # es) =
     (if isFinalTranscript m
      then \<lparr>role = msg_role m, content = msg_transcript m\<rparr> # finalFragments es
      else finalFragments es)"
| "finalFragments (e # es) = finalFragments es"

text \<open>
  The question block in the words of the specification: every question prefixed with a
  dash and a blank, the lines joined with newlines, and the empty text for no question.
\<close>

fun dashBlock :: "string list \<Rightarrow> string" where
  "dashBlock [] = []"
| "dashBlock [q] = ''- '' @ q"
| "dashBlock (q # q' # qs) = ''- '' @ q @ [CHR 0x0A] @ dashBlock (q' # qs)"

text \<open>
  Events that leave a finished call finished: every event except the start of a call, a
  press of the button and a rejected start, which set another status.
\<close>

fun staysFinished :: "Event \<Rightarrow> bool" where
  "staysFinished CallStart = False"
| "staysFinished Click = False"
| "staysFinished (StartSettled (Rejected m)) = False"
| "staysFinished e = True"

fun isFeedbackSettled :: "Event \<Rightarrow> bool" where
  "isFeedbackSettled (FeedbackSettled r) = True"
| "isFeedbackSettled e = False"

text \<open>What the completion effect adds to the log.\<close>

definition effectActions :: "AgentProps \<Rightarrow> AgentState \<Rightarrow> Action list" where
  "effectActions p s =
     (if callStatus s \<noteq> FINISHED then []
      else if type p = generate then [RouterPush ''/'']
      else if \<not> truthy_opt (interviewId p) \<or> \<not> truthy (userId p)
      then [ConsoleError ''Missing interviewId or userId for feedback generation.'',
            RouterPush ''/'']
      else [CreateFeedback
              \<lparr>fb_interviewId = interpolate (interviewId p), fb_userId = userId p,
               fb_transcript = messages s, fb_feedbackId = feedbackId p\<rparr>])"

text \<open>Ticks that leave a finished call finished.\<close>

fun quiet :: "Tick \<Rightarrow> bool" where
  "quiet (Handle e) = staysFinished e"
| "quiet Render = True"









subsection \<open>A sample interview\<close>

definition sampleProps :: AgentProps where
  "sampleProps = \<lparr>userName = ''Ann'', userId = ''u1'', interviewId = Some ''i1'',
                   feedbackId = None, type = normal, questions = Some [''a'', ''b'']\<rparr>"

definition sampleGenerateProps :: AgentProps where
  "sampleGenerateProps = \<lparr>userName = ''Ann'', userId = ''u1'', interviewId = None,
                   feedbackId = None, type = generate, questions = None\<rparr>"

definition sampleEnv :: Env where
  "sampleEnv = \<lparr>workflowId = None, interviewer = Some (AssistantConfig ''interviewer'')\<rparr>"

definition finalMsg :: "Role \<Rightarrow> string \<Rightarrow> VapiMessage" where
  "finalMsg r t = \<lparr>msg_type = ''transcript'', msg_transcriptType = ''final'',
                    msg_role = r, msg_transcript = t\<rparr>"

definition partialMsg :: "Role \<Rightarrow> string \<Rightarrow> VapiMessage" where
  "partialMsg r t = \<lparr>msg_type = ''transcript'', msg_transcriptType = ''partial'',
                    msg_role = r, msg_transcript = t\<rparr>"


text \<open>A call that has started: pressed, rendered, connected, rendered.\<close>

definition sampleStartedTicks :: "Tick list" where
  "sampleStartedTicks = [Handle Click, Render, Handle (StartSettled Resolved),
                         Handle CallStart, Render]"

text \<open>What can follow the press of the end button: two fragments handled before the
  next render, or no fragment at all.\<close>

definition batchedFragments :: "Tick list" where
  "batchedFragments =
     [Handle (Message (finalMsg User ''so'')), Handle (Message (finalMsg User ''long'')), Render]"


section \<open>Properties\<close>

subsection \<open>Basic facts\<close>

lemma mount_initial: "mount p = initial"
  by (simp add: mount_def completionEffect_def initial_def)

lemma setCallStatus_fields:
  "callStatus (setCallStatus v s) = v"
  "messages (setCallStatus v s) = messages s"
  "isSpeaking (setCallStatus v s) = isSpeaking s"
  "lastMessage (setCallStatus v s) = lastMessage s"
  "log (setCallStatus v s) = log s @ [SetCallStatus v]"
  by (simp_all add: setCallStatus_def)

lemma emit_fields:
  "callStatus (emit a s) = callStatus s"
  "messages (emit a s) = messages s"
  "isSpeaking (emit a s) = isSpeaking s"
  "lastMessage (emit a s) = lastMessage s"
  "log (emit a s) = log s @ [a]"
  by (simp_all add: emit_def)

lemma handleGenerateFeedback_fields:
  "callStatus (handleGenerateFeedback p ms s) = callStatus s"
  "messages (handleGenerateFeedback p ms s) = messages s"
  "isSpeaking (handleGenerateFeedback p ms s) = isSpeaking s"
  "lastMessage (handleGenerateFeedback p ms s) = lastMessage s"
  by (simp_all add: handleGenerateFeedback_def emit_fields)

lemma completionEffect_fields:
  "callStatus (completionEffect p s) = callStatus s"
  "messages (completionEffect p s) = messages s"
  "isSpeaking (completionEffect p s) = isSpeaking s"
  by (simp_all add: completionEffect_def Let_def emit_fields handleGenerateFeedback_fields)


lemma completionEffect_log:
  "log (completionEffect p s) = log s @ effectActions p s"
  by (simp add: completionEffect_def effectActions_def Let_def emit_fields
      handleGenerateFeedback_def)

lemma handler_log_prefix: "\<exists>xs. log (handler p env e s) = log s @ xs"
  by (cases e)
    (auto simp: onCallStart_def onCallEnd_def onMessage_def onSpeechStart_def
      onSpeechEnd_def onError_def handleCall_def handleDisconnect_def
      handleCall_settled_def handleCall_catch_def handleGenerateFeedback_settled_def
      Let_def setCallStatus_fields emit_fields
      split: option.splits StartOutcome.splits FeedbackOutcome.splits)

lemma step_log_prefix: "\<exists>xs. log (step p env e s) = log s @ xs"
proof -
  obtain xs where "log (handler p env e s) = log s @ xs"
    using handler_log_prefix by blast
  then show ?thesis
    by (simp add: step_def Let_def completionEffect_log)
qed

lemma run_log_prefix: "\<exists>xs. log (run p env es s) = log s @ xs"
proof (induction es arbitrary: s)
  case Nil
  show ?case by simp
next
  case (Cons e es)
  obtain xs where xs: "log (step p env e s) = log s @ xs"
    using step_log_prefix by blast
  obtain ys where "log (run p env es (step p env e s)) = log (step p env e s) @ ys"
    using Cons.IH by blast
  with xs show ?case by simp
qed

lemma added_self: "added s s = []"
  by (simp add: added_def)

lemma added_append: "log s' = log s @ xs \<Longrightarrow> added s s' = xs"
  by (simp add: added_def)

lemma added_run_Cons:
  "added s (run p env (e # es) s) =
     added s (step p env e s) @ added (step p env e s) (run p env es (step p env e s))"
proof -
  obtain xs where xs: "log (step p env e s) = log s @ xs"
    using step_log_prefix by blast
  obtain ys where ys: "log (run p env es (step p env e s)) = log (step p env e s) @ ys"
    using run_log_prefix by blast
  show ?thesis
    by (simp add: added_def xs ys)
qed

lemma run_append: "run p env (es @ fs) s = run p env fs (run p env es s)"
  by (induction es arbitrary: s) simp_all

lemma added_run_append:
  "added s (run p env (es @ fs) s) =
     added s (run p env es s) @ added (run p env es s) (run p env fs (run p env es s))"
proof -
  obtain xs where xs: "log (run p env es s) = log s @ xs"
    using run_log_prefix by blast
  obtain ys where ys: "log (run p env fs (run p env es s)) = log (run p env es s) @ ys"
    using run_log_prefix by blast
  show ?thesis
    by (simp add: added_def run_append xs ys)
qed

subsection \<open>Facts about the transcript\<close>

lemma handler_messages:
  "messages (handler p env e s) = messages s @ finalFragments [e]"
  by (cases e)
    (auto simp: onCallStart_def onCallEnd_def onMessage_def onSpeechStart_def
      onSpeechEnd_def onError_def handleCall_def handleDisconnect_def
      handleCall_settled_def handleCall_catch_def handleGenerateFeedback_settled_def
      isFinalTranscript_def Let_def setCallStatus_fields emit_fields
      split: option.splits StartOutcome.splits FeedbackOutcome.splits)

lemma step_messages:
  "messages (step p env e s) = messages s @ finalFragments [e]"
  by (simp add: step_def Let_def completionEffect_fields handler_messages)

lemma finalFragments_Cons:
  "finalFragments (e # es) = finalFragments [e] @ finalFragments es"
  by (cases e) simp_all

lemma run_messages:
  "messages (run p env es s) = messages s @ finalFragments es"
proof (induction es arbitrary: s)
  case Nil
  show ?case by simp
next
  case (Cons e es)
  have "messages (run p env (e # es) s) =
          (messages s @ finalFragments [e]) @ finalFragments es"
    using Cons.IH [of "step p env e s"] by (simp add: step_messages)
  then show ?case
    using finalFragments_Cons [of e es] by simp
qed

lemma length_finalFragments:
  "length (finalFragments es) = length (filter isFinalEvent es)"
proof (induction es)
  case Nil
  show ?case by simp
next
  case (Cons e es)
  then show ?case by (cases e) simp_all
qed

lemma finalFragments_not_final: "\<not> isFinalEvent e \<Longrightarrow> finalFragments [e] = []"
  by (cases e) simp_all

subsection \<open>The transcript\<close>

text \<open>
  C2. For every sequence of events delivered to the component, the transcript afterwards
  is the transcript before followed by one entry per final transcript fragment, in
  arrival order and with the role and text of the event; started from the empty
  transcript its length is the number of final fragments; an event that is not a final
  transcript fragment leaves the transcript as it was.
\<close>

theorem transcript_collects_final_fragments:
  "messages (run p env es s) = messages s @ finalFragments es
   \<and> length (messages (run p env es initial)) = length (filter isFinalEvent es)
   \<and> (\<not> isFinalEvent e \<longrightarrow> messages (step p env e s) = messages s)
   \<and> (isFinalTranscript m \<longrightarrow>
        messages (step p env (Message m) s) =
          messages s @ [\<lparr>role = msg_role m, content = msg_transcript m\<rparr>])"
proof -
  have "length (messages (run p env es initial)) = length (filter isFinalEvent es)"
    by (simp add: run_messages length_finalFragments initial_def)
  moreover have "\<not> isFinalEvent e \<longrightarrow> messages (step p env e s) = messages s"
    by (simp add: step_messages finalFragments_not_final)
  moreover have "isFinalTranscript m \<longrightarrow>
        messages (step p env (Message m) s) =
          messages s @ [\<lparr>role = msg_role m, content = msg_transcript m\<rparr>]"
    by (simp add: step_messages)
  ultimately show ?thesis
    by (simp add: run_messages)
qed

theorem transcript_collects_final_fragments_witness:
  "messages (run sampleProps sampleEnv
       [Message (finalMsg User ''hello''), Message (partialMsg Assistant ''go o''),
        SpeechStart, Message (finalMsg Assistant ''go on'')] initial)
     = [\<lparr>role = User, content = ''hello''\<rparr>, \<lparr>role = Assistant, content = ''go on''\<rparr>]
   \<and> \<not> isFinalEvent (Message (partialMsg Assistant ''go o''))
   \<and> messages (step sampleProps sampleEnv (Message (partialMsg Assistant ''go o'')) initial) = []
   \<and> isFinalTranscript (finalMsg User ''hello'')
   \<and> messages (step sampleProps sampleEnv (Message (finalMsg User ''hello'')) initial)
        = [\<lparr>role = User, content = ''hello''\<rparr>]"
  using transcript_collects_final_fragments
    [of sampleProps sampleEnv
      "[Message (finalMsg User ''hello''), Message (partialMsg Assistant ''go o''),
        SpeechStart, Message (finalMsg Assistant ''go on'')]"
      initial "Message (partialMsg Assistant ''go o'')" "finalMsg User ''hello''"]
  by (simp add: isFinalTranscript_def finalMsg_def partialMsg_def initial_def)

lemma onError_fields:
  "callStatus (onError e s) = callStatus s"
  "messages (onError e s) = messages s"
  "isSpeaking (onError e s) = isSpeaking s"
  "lastMessage (onError e s) = lastMessage s"
  "log (onError e s) = log s @ [ConsoleLog (''Error: '' @ e)]"
  by (simp_all add: onError_def emit_fields)

subsection \<open>Error and speech events\<close>

text \<open>
  C9. A session error event only writes the error to the console: call status,
  transcript, speaking indicator and last message stay as they were. A speech-start or
  speech-end event changes the speaking indicator and nothing else; in particular call
  status and transcript stay as they were.
\<close>

theorem error_and_speech_events_frame:
  "callStatus (step p env (Error err) s) = callStatus s
   \<and> messages (step p env (Error err) s) = messages s
   \<and> isSpeaking (step p env (Error err) s) = isSpeaking s
   \<and> lastMessage (step p env (Error err) s) = lastMessage s
   \<and> added s (step p env (Error err) s) = [ConsoleLog (''Error: '' @ err)]
   \<and> step p env SpeechStart s = s\<lparr>isSpeaking := True\<rparr>
   \<and> step p env SpeechEnd s = s\<lparr>isSpeaking := False\<rparr>
   \<and> callStatus (step p env SpeechStart s) = callStatus s
   \<and> messages (step p env SpeechStart s) = messages s
   \<and> callStatus (step p env SpeechEnd s) = callStatus s
   \<and> messages (step p env SpeechEnd s) = messages s"
  by (simp add: step_def Let_def depsChanged_def onError_fields added_def
      onSpeechStart_def onSpeechEnd_def)

subsection \<open>Starting a session\<close>

text \<open>
  C3. When start is invoked in generate mode and no workflow identifier is configured
  (undefined or empty), the component sets CONNECTING, alerts the user and sets INACTIVE:
  the session's start is never called, an error is shown, and the status ends at INACTIVE.
  The same holds for a press of the call button.
\<close>

theorem start_generate_without_workflow:
  assumes "type p = generate" and "\<not> truthy_opt (workflowId env)"
  shows "added s (handleCall p env s) =
           [SetCallStatus CONNECTING,
            Alert ''Vapi Workflow ID must be provided to start the call for 'generate' type.'',
            SetCallStatus INACTIVE]
         \<and> callStatus (handleCall p env s) = INACTIVE
         \<and> (callStatus s \<noteq> ACTIVE \<longrightarrow>
              callStatus (step p env Click s) = INACTIVE
              \<and> filter isVapiStart (added s (step p env Click s)) = []
              \<and> filter isAlert (added s (step p env Click s)) =
                  [Alert ''Vapi Workflow ID must be provided to start the call for 'generate' type.''])"
proof -
  let ?a = "Alert ''Vapi Workflow ID must be provided to start the call for 'generate' type.''"
  have h: "handleCall p env s =
             setCallStatus INACTIVE (emit ?a (setCallStatus CONNECTING s))"
    using assms
    by (simp add: handleCall_def Let_def truthy_opt_def split: option.splits)
  have l: "log (handleCall p env s) =
             log s @ [SetCallStatus CONNECTING, ?a, SetCallStatus INACTIVE]"
    by (simp add: h setCallStatus_fields emit_fields)
  have c: "callStatus (handleCall p env s) = INACTIVE"
    by (simp add: h setCallStatus_fields)
  have e: "effectActions p (handleCall p env s) = []"
    by (simp add: effectActions_def c)
  have sl: "callStatus s \<noteq> ACTIVE \<Longrightarrow>
             log (step p env Click s) = log (handleCall p env s)"
    by (simp add: step_def Let_def completionEffect_log e)
  have sc: "callStatus s \<noteq> ACTIVE \<Longrightarrow> callStatus (step p env Click s) = INACTIVE"
    by (simp add: step_def Let_def completionEffect_fields c)
  show ?thesis
    using sl sc by (simp add: added_def l c)
qed

theorem start_generate_without_workflow_witness:
  "type sampleGenerateProps = generate \<and> \<not> truthy_opt (workflowId sampleEnv)
   \<and> callStatus initial \<noteq> ACTIVE
   \<and> callStatus (step sampleGenerateProps sampleEnv Click initial) = INACTIVE
   \<and> filter isVapiStart (added initial (step sampleGenerateProps sampleEnv Click initial)) = []
   \<and> filter isAlert (added initial (step sampleGenerateProps sampleEnv Click initial)) =
        [Alert ''Vapi Workflow ID must be provided to start the call for 'generate' type.'']"
proof -
  have g: "type sampleGenerateProps = generate"
    by (simp add: sampleGenerateProps_def)
  have w: "\<not> truthy_opt (workflowId sampleEnv)"
    by (simp add: sampleEnv_def truthy_opt_def)
  have a: "callStatus initial \<noteq> ACTIVE"
    by (simp add: initial_def)
  show ?thesis
    using start_generate_without_workflow [OF g w, of initial] g w a by simp
qed

subsection \<open>The question block\<close>

lemma join_loop_later:
  "0 < k \<Longrightarrow> join_loop sep xs k r = r @ concat (map (\<lambda>x. sep @ x) xs)"
  by (induction xs arbitrary: k r) simp_all

lemma join_Cons: "join (x # xs) sep = x @ concat (map (\<lambda>y. sep @ y) xs)"
  by (simp add: join_def join_loop_later)

lemma dashBlock_Cons:
  "dashBlock (q # qs) = (''- '' @ q) @ concat (map (\<lambda>y. [CHR 0x0A] @ ''- '' @ y) qs)"
  by (induction qs arbitrary: q) simp_all

lemma formatQuestions_dashBlock: "formatQuestions (Some qs) = dashBlock qs"
proof (cases qs)
  case Nil
  then show ?thesis by (simp add: formatQuestions_def join_def)
next
  case (Cons q qs')
  show ?thesis
    unfolding Cons dashBlock_Cons formatQuestions_def
    by (simp add: join_Cons comp_def)
qed

text \<open>
  C5. In normal mode, with an interviewer configuration present, the questions variable
  handed to the session is the question list with every element prefixed by a dash and a
  blank and the lines joined with newlines; it is the empty string for an absent or empty
  list, and \<^verbatim>\<open>- a\<close>, newline, \<^verbatim>\<open>- b\<close> for the list of a and b.
\<close>

theorem questions_variable_is_dash_block:
  assumes "type p = normal" and "interviewer env = Some cfg"
  shows "added s (handleCall p env s) =
           [SetCallStatus CONNECTING,
            VapiStart (StartAssistant cfg
              (case questions p of None \<Rightarrow> [] | Some qs \<Rightarrow> dashBlock qs))]
         \<and> formatQuestions None = []
         \<and> formatQuestions (Some []) = []
         \<and> formatQuestions (Some [''a'', ''b'']) = ''- a'' @ [CHR 0x0A] @ ''- b''"
proof -
  have f: "formatQuestions (questions p) =
             (case questions p of None \<Rightarrow> [] | Some qs \<Rightarrow> dashBlock qs)"
    by (cases "questions p") (simp_all add: formatQuestions_dashBlock, simp add: formatQuestions_def)
  have "log (handleCall p env s) =
          log s @ [SetCallStatus CONNECTING,
                   VapiStart (StartAssistant cfg (formatQuestions (questions p)))]"
    using assms by (simp add: handleCall_def Let_def setCallStatus_fields emit_fields)
  then have "added s (handleCall p env s) =
           [SetCallStatus CONNECTING,
            VapiStart (StartAssistant cfg
              (case questions p of None \<Rightarrow> [] | Some qs \<Rightarrow> dashBlock qs))]"
    by (simp add: added_def f)
  moreover have "formatQuestions None = []"
    by (simp add: formatQuestions_def)
  moreover have "formatQuestions (Some []) = []"
    by (simp add: formatQuestions_dashBlock)
  moreover have "formatQuestions (Some [''a'', ''b'']) = ''- a'' @ [CHR 0x0A] @ ''- b''"
    by (simp add: formatQuestions_dashBlock)
  ultimately show ?thesis by simp
qed

theorem questions_variable_is_dash_block_witness:
  "added initial (handleCall sampleProps sampleEnv initial) =
     [SetCallStatus CONNECTING,
      VapiStart (StartAssistant (AssistantConfig ''interviewer'') (''- a'' @ [CHR 0x0A] @ ''- b''))]"
  using questions_variable_is_dash_block
    [of sampleProps sampleEnv "AssistantConfig ''interviewer''" initial]
  by (simp add: sampleProps_def sampleEnv_def)

subsection \<open>A failed start\<close>

text \<open>
  C6. When the session's start call throws, in either mode and whatever has happened
  since the call was made, the user is alerted with the text of the error's message
  (with a fixed text when the error carries no message or an empty one) and the call
  status is set to INACTIVE.
\<close>

theorem start_failure_reported_and_inactive:
  "callStatus (handleCall_catch m s) = INACTIVE
   \<and> added s (handleCall_catch m s) = [Alert (startErrorText m), SetCallStatus INACTIVE]
   \<and> callStatus (step p env (StartSettled (Rejected m)) s) = INACTIVE
   \<and> added s (step p env (StartSettled (Rejected m)) s) =
       [Alert (startErrorText m), SetCallStatus INACTIVE]
   \<and> (truthy text \<longrightarrow> startErrorText (Some text) = ''Something went wrong: '' @ text)
   \<and> startErrorText None = ''Something went wrong: Failed to start interview.''
   \<and> startErrorText (Some []) = ''Something went wrong: Failed to start interview.''"
proof -
  have c: "callStatus (handleCall_catch m s) = INACTIVE"
    by (simp add: handleCall_catch_def setCallStatus_fields)
  have l: "log (handleCall_catch m s) = log s @ [Alert (startErrorText m), SetCallStatus INACTIVE]"
    by (simp add: handleCall_catch_def setCallStatus_fields emit_fields)
  have e: "effectActions p (handleCall_catch m s) = []"
    by (simp add: effectActions_def c)
  have sc: "callStatus (step p env (StartSettled (Rejected m)) s) = INACTIVE"
    by (simp add: step_def Let_def handleCall_settled_def completionEffect_fields c)
  have sl: "log (step p env (StartSettled (Rejected m)) s) = log (handleCall_catch m s)"
    by (simp add: step_def Let_def handleCall_settled_def completionEffect_log e)
  have t: "truthy text \<longrightarrow> startErrorText (Some text) = ''Something went wrong: '' @ text"
    by (simp add: startErrorText_def truthy_opt_def interpolate_def)
  have n: "startErrorText None = ''Something went wrong: Failed to start interview.''"
    "startErrorText (Some []) = ''Something went wrong: Failed to start interview.''"
    by (simp_all add: startErrorText_def truthy_opt_def truthy_def)
  show ?thesis
    using t by (simp add: c sc added_def l sl n)
qed

theorem start_failure_reported_and_inactive_witness:
  "truthy ''boom''
   \<and> callStatus (run sampleProps sampleEnv [Click, StartSettled (Rejected (Some ''boom''))] initial)
       = INACTIVE
   \<and> added (step sampleProps sampleEnv Click initial)
       (step sampleProps sampleEnv (StartSettled (Rejected (Some ''boom'')))
          (step sampleProps sampleEnv Click initial))
       = [Alert ''Something went wrong: boom'', SetCallStatus INACTIVE]"
  using start_failure_reported_and_inactive
    [of "Some ''boom''" "step sampleProps sampleEnv Click initial" sampleProps sampleEnv "''boom''"]
  by (simp add: truthy_def)

subsection \<open>The completion effect\<close>

lemma added_completionEffect: "added s (completionEffect p s) = effectActions p s"
  by (simp add: added_def completionEffect_log)

text \<open>
  C4. A run of the completion effect calls the feedback action only when the status is
  FINISHED, the mode is normal and both the interview identifier and the user identifier
  are present (defined and not empty). In every other FINISHED case it navigates to the
  landing route, calls no feedback action and raises no alert.
\<close>

theorem feedback_only_in_normal_mode_with_identifiers:
  "(CreateFeedback r \<in> set (added s (completionEffect p s)) \<longrightarrow>
      callStatus s = FINISHED \<and> type p = normal
      \<and> truthy_opt (interviewId p) \<and> truthy (userId p))
   \<and> (callStatus s = FINISHED
        \<and> \<not> (type p = normal \<and> truthy_opt (interviewId p) \<and> truthy (userId p)) \<longrightarrow>
        filter isRouterPush (added s (completionEffect p s)) = [RouterPush ''/'']
        \<and> filter isCreateFeedback (added s (completionEffect p s)) = []
        \<and> filter isAlert (added s (completionEffect p s)) = [])"
proof -
  have a: "CreateFeedback r \<in> set (effectActions p s) \<longrightarrow>
      callStatus s = FINISHED \<and> type p = normal
      \<and> truthy_opt (interviewId p) \<and> truthy (userId p)"
    by (cases "type p") (auto simp: effectActions_def split: if_splits)
  have b: "callStatus s = FINISHED
        \<and> \<not> (type p = normal \<and> truthy_opt (interviewId p) \<and> truthy (userId p)) \<longrightarrow>
        filter isRouterPush (effectActions p s) = [RouterPush ''/'']
        \<and> filter isCreateFeedback (effectActions p s) = []
        \<and> filter isAlert (effectActions p s) = []"
    by (cases "type p") (auto simp: effectActions_def)
  show ?thesis
    using a b by (simp only: added_completionEffect) 
qed

theorem feedback_only_in_normal_mode_with_identifiers_witness:
  "CreateFeedback \<lparr>fb_interviewId = ''i1'', fb_userId = ''u1'', fb_transcript = [],
       fb_feedbackId = None\<rparr>
     \<in> set (added (initial\<lparr>callStatus := FINISHED\<rparr>)
              (completionEffect sampleProps (initial\<lparr>callStatus := FINISHED\<rparr>)))
   \<and> type sampleProps = normal
   \<and> truthy_opt (interviewId sampleProps) \<and> truthy (userId sampleProps)
   \<and> \<not> (type (sampleProps\<lparr>userId := []\<rparr>) = normal
        \<and> truthy_opt (interviewId (sampleProps\<lparr>userId := []\<rparr>))
        \<and> truthy (userId (sampleProps\<lparr>userId := []\<rparr>)))
   \<and> filter isRouterPush (added (initial\<lparr>callStatus := FINISHED\<rparr>)
        (completionEffect (sampleProps\<lparr>userId := []\<rparr>) (initial\<lparr>callStatus := FINISHED\<rparr>)))
      = [RouterPush ''/'']"
  using feedback_only_in_normal_mode_with_identifiers
    [of "\<lparr>fb_interviewId = ''i1'', fb_userId = ''u1'', fb_transcript = [],
       fb_feedbackId = None\<rparr>" "initial\<lparr>callStatus := FINISHED\<rparr>" sampleProps]
    feedback_only_in_normal_mode_with_identifiers
    [of "\<lparr>fb_interviewId = ''i1'', fb_userId = ''u1'', fb_transcript = [],
       fb_feedbackId = None\<rparr>" "initial\<lparr>callStatus := FINISHED\<rparr>" "sampleProps\<lparr>userId := []\<rparr>"]
  by (simp add: added_def completionEffect_def handleGenerateFeedback_def emit_def
      sampleProps_def initial_def truthy_def truthy_opt_def interpolate_def Let_def)

subsection \<open>Status transitions\<close>



lemma handler_status_finished:
  "callStatus (handler p env e s) = FINISHED \<Longrightarrow> callStatus s \<noteq> FINISHED \<Longrightarrow>
     e = CallEnd \<or> (e = Click \<and> callStatus s = ACTIVE)"
  by (cases e)
    (auto simp: onCallStart_def onCallEnd_def onMessage_def onSpeechStart_def
      onSpeechEnd_def onError_def handleCall_def handleDisconnect_def
      handleCall_settled_def handleCall_catch_def handleGenerateFeedback_settled_def
      Let_def setCallStatus_fields emit_fields
      split: option.splits StartOutcome.splits FeedbackOutcome.splits if_splits)


lemma added_step:
  "added s (step p env e s) =
     added s (handler p env e s) @
       (if depsChanged s (handler p env e s) then effectActions p (handler p env e s) else [])"
proof -
  obtain xs where "log (handler p env e s) = log s @ xs"
    using handler_log_prefix by blast
  then show ?thesis
    by (simp add: added_def step_def Let_def completionEffect_log)
qed

lemma callStatus_step: "callStatus (step p env e s) = callStatus (handler p env e s)"
  by (simp add: step_def Let_def completionEffect_fields)

subsection \<open>Finishing in generate mode\<close>

lemma handler_no_feedback: "filter isCreateFeedback (added s (handler p env e s)) = []"
  by (cases e)
    (auto simp: added_def onCallStart_def onCallEnd_def onMessage_def onSpeechStart_def
      onSpeechEnd_def onError_def handleCall_def handleDisconnect_def
      handleCall_settled_def handleCall_catch_def handleGenerateFeedback_settled_def
      Let_def setCallStatus_fields emit_fields
      split: option.splits StartOutcome.splits FeedbackOutcome.splits)

lemma effectActions_generate:
  "type p = generate \<Longrightarrow>
     effectActions p s = (if callStatus s = FINISHED then [RouterPush ''/''] else [])"
  by (simp add: effectActions_def)

lemma step_generate_no_feedback:
  "type p = generate \<Longrightarrow> filter isCreateFeedback (added s (step p env e s)) = []"
  by (simp add: added_step handler_no_feedback effectActions_generate)

lemma run_generate_no_feedback:
  "type p = generate \<Longrightarrow> filter isCreateFeedback (added s (run p env es s)) = []"
proof (induction es arbitrary: s)
  case Nil
  show ?case by (simp add: added_self)
next
  case (Cons e es)
  then show ?case
    by (simp only: added_run_Cons filter_append step_generate_no_feedback append_Nil)
qed

text \<open>
  C8. In generate mode, whenever the status becomes FINISHED the component navigates to
  the landing route, and over every sequence of events the feedback action is never
  called.
\<close>

theorem generate_mode_finish_navigates_home:
  assumes "type p = generate"
  shows "(callStatus s \<noteq> FINISHED \<and> callStatus (step p env e s) = FINISHED \<longrightarrow>
            filter isRouterPush (added s (step p env e s)) = [RouterPush ''/''])
         \<and> filter isCreateFeedback (added s (run p env es s)) = []"
proof -
  have "filter isRouterPush (added s (step p env e s)) = [RouterPush ''/'']"
    if n: "callStatus s \<noteq> FINISHED" and f: "callStatus (step p env e s) = FINISHED"
  proof -
    have hf: "callStatus (handler p env e s) = FINISHED"
      using f by (simp add: callStatus_step)
    then have ch: "depsChanged s (handler p env e s)"
      using n by (simp add: depsChanged_def)
    have "e = CallEnd \<or> (e = Click \<and> callStatus s = ACTIVE)"
      using handler_status_finished [OF hf n] .
    then have "filter isRouterPush (added s (handler p env e s)) = []"
      by (auto simp: added_def onCallEnd_def handleDisconnect_def setCallStatus_fields emit_fields)
    then show ?thesis
      using assms hf ch by (simp add: added_step effectActions_generate)
  qed
  then show ?thesis
    using run_generate_no_feedback [OF assms] by blast
qed

theorem generate_mode_finish_navigates_home_witness:
  "type sampleGenerateProps = generate
   \<and> callStatus (run sampleGenerateProps (sampleEnv\<lparr>workflowId := Some ''w''\<rparr>)
        [Click, StartSettled Resolved, CallStart] initial) \<noteq> FINISHED
   \<and> callStatus (step sampleGenerateProps (sampleEnv\<lparr>workflowId := Some ''w''\<rparr>) CallEnd
        (run sampleGenerateProps (sampleEnv\<lparr>workflowId := Some ''w''\<rparr>)
           [Click, StartSettled Resolved, CallStart] initial)) = FINISHED
   \<and> filter isRouterPush
        (added (run sampleGenerateProps (sampleEnv\<lparr>workflowId := Some ''w''\<rparr>)
                  [Click, StartSettled Resolved, CallStart] initial)
           (step sampleGenerateProps (sampleEnv\<lparr>workflowId := Some ''w''\<rparr>) CallEnd
              (run sampleGenerateProps (sampleEnv\<lparr>workflowId := Some ''w''\<rparr>)
                 [Click, StartSettled Resolved, CallStart] initial)))
      = [RouterPush ''/'']"
proof -
  have g: "type sampleGenerateProps = generate"
    by (simp add: sampleGenerateProps_def)
  let ?env = "sampleEnv\<lparr>workflowId := Some ''w''\<rparr>"
  let ?s = "run sampleGenerateProps ?env [Click, StartSettled Resolved, CallStart] initial"
  have a: "callStatus ?s = ACTIVE"
    by (simp add: callStatus_step onCallStart_def setCallStatus_fields)
  have b: "callStatus (step sampleGenerateProps ?env CallEnd ?s) = FINISHED"
    by (simp add: callStatus_step onCallEnd_def setCallStatus_fields)
  show ?thesis
    using generate_mode_finish_navigates_home [OF g, of ?s ?env CallEnd] g a b
    by simp
qed

subsection \<open>Handlers and the last message\<close>


subsection \<open>Finishing in normal mode\<close>

lemma effectActions_normal:
  "type p = normal \<Longrightarrow> interviewId p = Some i \<Longrightarrow> truthy i \<Longrightarrow> truthy (userId p) \<Longrightarrow>
     callStatus s = FINISHED \<Longrightarrow>
     effectActions p s =
       [CreateFeedback \<lparr>fb_interviewId = i, fb_userId = userId p,
          fb_transcript = messages s, fb_feedbackId = feedbackId p\<rparr>]"
  by (simp add: effectActions_def truthy_opt_def interpolate_def)


section \<open>Properties over render schedules\<close>

subsection \<open>Basic facts\<close>

lemma step_is_handle_render:
  "\<not> depsChanged (shown c) (current c) \<Longrightarrow>
     current (tick p env Render (tick p env (Handle e) c)) = step p env e (current c)"
  by (cases e) (auto simp: step_def Let_def depsChanged_def)

lemma handleAt_cases:
  "handleAt p env r e s = handler p env e s
   \<or> (e = Click \<and> handleAt p env r e s = handleCall p env s)
   \<or> (e = Click \<and> r = ACTIVE \<and> handleAt p env r e s = handleDisconnect s)"
  by (cases e) simp_all

lemma handleCall_fields:
  "messages (handleCall p env s) = messages s"
  "lastMessage (handleCall p env s) = lastMessage s"
  by (simp_all add: handleCall_def Let_def setCallStatus_fields emit_fields
      split: option.splits)

lemma handleDisconnect_fields:
  "messages (handleDisconnect s) = messages s"
  "lastMessage (handleDisconnect s) = lastMessage s"
  "callStatus (handleDisconnect s) = FINISHED"
  "log (handleDisconnect s) = log s @ [SetCallStatus FINISHED, VapiStop]"
  by (simp_all add: handleDisconnect_def setCallStatus_fields emit_fields)

lemma handleAt_messages:
  "messages (handleAt p env r e s) = messages s @ finalFragments [e]"
proof (cases "e = Click")
  case True
  then show ?thesis
    by (simp add: handleCall_fields handleDisconnect_fields)
next
  case False
  then have "handleAt p env r e s = handler p env e s"
    by (cases e) simp_all
  then show ?thesis
    by (simp add: handler_messages)
qed









lemma added_render:
  "added (current c) (current (tick p env Render c)) =
     (if depsChanged (shown c) (current c) then effectActions p (current c) else [])"
  by (simp add: added_def completionEffect_log)

subsection \<open>The last message\<close>









subsection \<open>Status transitions\<close>



























subsection \<open>Finishing in normal mode, under any schedule\<close>

lemma handleAt_quiet:
  assumes "staysFinished e" and "callStatus s = FINISHED"
  shows "callStatus (handleAt p env r e s) = FINISHED"
    and "filter isCreateFeedback (added s (handleAt p env r e s)) = []"
    and "\<not> isFeedbackSettled e \<Longrightarrow> filter isRouterPush (added s (handleAt p env r e s)) = []"
proof -
  have h: "handleAt p env r e s = handler p env e s"
    using assms(1) by (cases e) simp_all
  show "callStatus (handleAt p env r e s) = FINISHED"
    unfolding h using assms
    by (cases e rule: staysFinished.cases)
      (simp_all add: onCallEnd_def onMessage_def onSpeechStart_def
        onSpeechEnd_def onError_def handleCall_settled_def
        handleGenerateFeedback_settled_def setCallStatus_fields emit_fields
        split: FeedbackOutcome.splits)
  show "filter isCreateFeedback (added s (handleAt p env r e s)) = []"
    unfolding h by (rule handler_no_feedback)
  show "\<not> isFeedbackSettled e \<Longrightarrow> filter isRouterPush (added s (handleAt p env r e s)) = []"
    unfolding h using assms(1)
    by (cases e rule: staysFinished.cases)
      (simp_all add: added_def onCallEnd_def onMessage_def onSpeechStart_def
        onSpeechEnd_def onError_def handleCall_settled_def
        setCallStatus_fields emit_fields)
qed


text \<open>One tick of a finished call in normal mode with valid identifiers.\<close>

lemma quiet_handle:
  assumes f: "callStatus (current c) = FINISHED" and q: "staysFinished e"
  shows "callStatus (current (tick p env (Handle e) c)) = FINISHED"
    and "shown (tick p env (Handle e) c) = shown c"
    and "messages (current (tick p env (Handle e) c)) = messages (current c) @ finalFragments [e]"
    and "filter isCreateFeedback (added (current c) (current (tick p env (Handle e) c))) = []"
    and "\<not> isFeedbackSettled e \<Longrightarrow>
           filter isRouterPush (added (current c) (current (tick p env (Handle e) c))) = []"
  using handleAt_quiet [OF q f, of p env "callStatus (shown c)"]
  by (simp_all add: handleAt_messages)

lemma quiet_render:
  assumes "type p = normal" "interviewId p = Some i" "truthy i" "truthy (userId p)"
    and f: "callStatus (current c) = FINISHED"
  shows "callStatus (current (tick p env Render c)) = FINISHED"
    and "messages (current (tick p env Render c)) = messages (current c)"
    and "\<not> depsChanged (shown (tick p env Render c)) (current (tick p env Render c))"
    and "added (current c) (current (tick p env Render c)) =
           (if depsChanged (shown c) (current c)
            then [CreateFeedback \<lparr>fb_interviewId = i, fb_userId = userId p,
                    fb_transcript = messages (current c), fb_feedbackId = feedbackId p\<rparr>]
            else [])"
proof -
  show "callStatus (current (tick p env Render c)) = FINISHED"
    using f by (simp add: completionEffect_fields)
  show "messages (current (tick p env Render c)) = messages (current c)"
    by (simp add: completionEffect_fields)
  show "\<not> depsChanged (shown (tick p env Render c)) (current (tick p env Render c))"
    by (simp add: depsChanged_def completionEffect_fields)
  show "added (current c) (current (tick p env Render c)) =
           (if depsChanged (shown c) (current c)
            then [CreateFeedback \<lparr>fb_interviewId = i, fb_userId = userId p,
                    fb_transcript = messages (current c), fb_feedbackId = feedbackId p\<rparr>]
            else [])"
    unfolding added_render using effectActions_normal [OF assms(1-4) f] by simp
qed

lemma quiet_schedule_status:
  assumes "type p = normal" "interviewId p = Some i" "truthy i" "truthy (userId p)"
  shows "callStatus (current c) = FINISHED \<Longrightarrow> \<forall>t\<in>set ts. quiet t \<Longrightarrow>
           callStatus (current (schedule p env ts c)) = FINISHED"
proof (induction ts arbitrary: c)
  case Nil
  then show ?case by simp
next
  case (Cons t ts)
  have "callStatus (current (tick p env t c)) = FINISHED"
  proof (cases t)
    case (Handle e)
    then have "staysFinished e" using Cons.prems(2) by simp
    then show ?thesis
      unfolding Handle using quiet_handle(1) [OF Cons.prems(1)] by blast
  next
    case Render
    show ?thesis
      unfolding Render using quiet_render(1) [OF assms Cons.prems(1)] .
  qed
  then show ?case
    using Cons.IH [of "tick p env t c"] Cons.prems(2) by simp
qed









text \<open>
  Two fragments that are handled before the same render share one call: with the call
  made at that render, the bound of two more calls is not reached.
\<close>

lemma batched_fragments_share_one_call:
  "length (filter isCreateFeedback
        (added (current (schedule sampleProps sampleEnv sampleStartedTicks (mounted sampleProps)))
           (current (schedule sampleProps sampleEnv (Handle Click # batchedFragments)
              (schedule sampleProps sampleEnv sampleStartedTicks (mounted sampleProps)))))) = 1"
  by code_simp

end
